theory Spec2Isabelle
  imports Complex_Main
begin

section \<open>Data model\<close>

text \<open>
  The dubbing service (\<^verbatim>\<open>services/dub.service.ts\<close>, \<^verbatim>\<open>routes/dub.route.ts\<close>,
  \<^verbatim>\<open>utils/temp.ts\<close>) is embedded as state-passing functions over a \<open>world\<close>: the
  file system, the two registries of \<^verbatim>\<open>utils/progress\<close> and logs of the requests sent to
  the external collaborators. JavaScript numbers that carry seconds are rationals (every
  double is a rational; the rounding of double arithmetic is not modelled), counters are
  naturals, strings are byte strings.
\<close>

type_synonym path = string

datatype gender = Male | Female

datatype emotion = Soft | Firm | Neutral | Energetic

datatype error = ExecFailed | OpenAIFailed

text \<open>
  A segment of \<^verbatim>\<open>transcription.segments\<close>. The field \<^verbatim>\<open>speaker\<close> may be missing
  (\<open>None\<close>).
\<close>

record segment =
  seg_start :: rat
  seg_end :: rat
  seg_text :: string
  seg_speaker :: "string option"

text \<open>
  One argument of an ffmpeg command line: a literal string, \<^verbatim>\<open>x.toFixed(2)\<close> (held as
  the integer number of hundredths it prints) or \<^verbatim>\<open>x.toString()\<close>.
\<close>

datatype arg = S string | Fixed2 int | Num rat

datatype exec_result = Throws | Exited string

datatype content = Produced "arg list" | Written string

record tts_request =
  tts_model :: string
  tts_voice :: string
  tts_input :: string

text \<open>
  The external collaborators of one run. Every answer may depend on the moment of the
  call (the \<open>clock\<close> of the world) and on the request.
  \<^item> \<open>rnd c\<close> is the text \<^verbatim>\<open>${Date.now()}-${Math.random()}\<close> of a call of \<^verbatim>\<open>tempFile\<close>;
  \<^item> \<open>ffmpeg c args\<close> is the outcome of \<^verbatim>\<open>execFileAsync(FFMPEG_PATH, args)\<close>: it
    rejects, or resolves with the text of stderr;
  \<^item> \<open>whisper\<close>, \<open>chat\<close> and \<open>tts\<close> are the OpenAI endpoints; \<open>None\<close> is a rejected
    call.
\<close>

record env =
  rnd :: "nat \<Rightarrow> string"
  ffmpeg :: "nat \<Rightarrow> arg list \<Rightarrow> exec_result"
  whisper :: "nat \<Rightarrow> path \<Rightarrow> segment list option"
  chat :: "nat \<Rightarrow> string \<Rightarrow> string option"
  tts :: "nat \<Rightarrow> tts_request \<Rightarrow> string option"

record world =
  clock :: nat
  files :: "path \<rightharpoonup> content"
  progressMap :: "string \<rightharpoonup> int"
  outputMap :: "string \<rightharpoonup> path"
  progress_writes :: "(string \<times> int) list"
  ffmpeg_calls :: "arg list list"
  tts_requests :: "tts_request list"

text \<open>
  An asynchronous function is a state transformer that returns a value or throws; the
  world it leaves behind is kept in both cases.
\<close>

type_synonym 'a prog = "world \<Rightarrow> (error + 'a) \<times> world"

definition ret :: "'a \<Rightarrow> 'a prog" where
  "ret x w = (Inr x, w)"

definition bindP :: "'a prog \<Rightarrow> ('a \<Rightarrow> 'b prog) \<Rightarrow> 'b prog" where
  "bindP m k w = (case m w of (Inl e, w') \<Rightarrow> (Inl e, w') | (Inr x, w') \<Rightarrow> k x w')"

definition lift :: "(world \<Rightarrow> world) \<Rightarrow> unit prog" where
  "lift f w = (Inr (), f w)"

section \<open>utils/temp.ts and utils/progress\<close>

definition tmpdir :: string where
  "tmpdir = ''/tmp''"

definition tempFile :: "env \<Rightarrow> string \<Rightarrow> path prog" where
  "tempFile env ext w =
     (Inr (tmpdir @ ''/'' @ rnd env (clock w) @ ext), w\<lparr>clock := clock w + 1\<rparr>)"

definition safeUnlink :: "path \<Rightarrow> world \<Rightarrow> world" where
  "safeUnlink file w =
     (if file \<noteq> [] \<and> file \<in> dom (files w) then w\<lparr>files := (files w)(file := None)\<rparr> else w)"

definition writeFileSync :: "path \<Rightarrow> string \<Rightarrow> world \<Rightarrow> world" where
  "writeFileSync file bytes w = w\<lparr>files := (files w)(file \<mapsto> Written bytes)\<rparr>"

definition progressMap_set :: "string \<Rightarrow> int \<Rightarrow> world \<Rightarrow> world" where
  "progressMap_set jobId v w =
     w\<lparr>progressMap := (progressMap w)(jobId \<mapsto> v),
       progress_writes := progress_writes w @ [(jobId, v)]\<rparr>"

definition outputMap_set :: "string \<Rightarrow> path \<Rightarrow> world \<Rightarrow> world" where
  "outputMap_set jobId file w = w\<lparr>outputMap := (outputMap w)(jobId \<mapsto> file)\<rparr>"

section \<open>services/dub.service.ts: helpers\<close>

definition maleVoices :: "string list" where
  "maleVoices = [''onyx'', ''nova'', ''shimmer'', ''ballad'']"

definition femaleVoices :: "string list" where
  "femaleVoices = [''alloy'', ''verse'', ''fable'', ''coral'']"

text \<open>
  The file an ffmpeg command writes is its last argument, unless that is \<^verbatim>\<open>-\<close>. A
  command that exits with success has written it; a failed command is taken to leave
  nothing behind.
\<close>

definition output_of :: "arg list \<Rightarrow> path option" where
  "output_of args =
     (case rev args of
        S p # _ \<Rightarrow> if p = ''-'' then None else Some p
      | _ \<Rightarrow> None)"

definition execFileAsync :: "env \<Rightarrow> arg list \<Rightarrow> string prog" where
  "execFileAsync env args w =
     (let w1 = w\<lparr>clock := clock w + 1, ffmpeg_calls := ffmpeg_calls w @ [args]\<rparr> in
      case ffmpeg env (clock w) args of
        Throws \<Rightarrow> (Inl ExecFailed, w1)
      | Exited stderr \<Rightarrow>
          (Inr stderr,
           case output_of args of
             None \<Rightarrow> w1
           | Some p \<Rightarrow> w1\<lparr>files := (files w1)(p \<mapsto> Produced args)\<rparr>))"

definition extractAudio :: "env \<Rightarrow> path \<Rightarrow> path \<Rightarrow> unit prog" where
  "extractAudio env input output =
     bindP (execFileAsync env [S ''-i'', S input, S ''-map'', S ''a'', S ''-q:a'', S ''0'', S output])
       (\<lambda>_. ret ())"

text \<open>
  \<^verbatim>\<open>x.toFixed(2)\<close> prints the integer \<open>n\<close> for which \<open>n / 100 - x\<close> is closest to zero,
  the larger one on a tie, with two decimals; a negative \<open>x\<close> prints as the negation
  of \<open>-x\<close>.
\<close>

definition toFixed2 :: "rat \<Rightarrow> int" where
  "toFixed2 x = (if x < 0 then - \<lfloor>- x * 100 + 1 / 2\<rfloor> else \<lfloor>x * 100 + 1 / 2\<rfloor>)"

definition silence_args :: "rat \<Rightarrow> path \<Rightarrow> arg list" where
  "silence_args seconds output =
     [S ''-f'', S ''lavfi'', S ''-i'', S ''anullsrc=r=44100:cl=mono'',
      S ''-t'', Fixed2 (toFixed2 seconds), S output]"

definition createSilence :: "env \<Rightarrow> rat \<Rightarrow> path \<Rightarrow> unit prog" where
  "createSilence env seconds output =
     (if seconds \<le> 0 then ret ()
      else bindP (execFileAsync env (silence_args seconds output)) (\<lambda>_. ret ()))"

definition whitespace :: "char \<Rightarrow> bool" where
  "whitespace c = (c \<in> set [CHR '' '', CHR 0x09, CHR 0x0A, CHR 0x0B, CHR 0x0C, CHR 0x0D])"

definition trim :: "string \<Rightarrow> string" where
  "trim s = rev (dropWhile whitespace (rev (dropWhile whitespace s)))"

definition translate :: "env \<Rightarrow> string \<Rightarrow> string prog" where
  "translate env text w =
     (case chat env (clock w) text of
        None \<Rightarrow> (Inl OpenAIFailed, w\<lparr>clock := clock w + 1\<rparr>)
      | Some content \<Rightarrow> (Inr (trim content), w\<lparr>clock := clock w + 1\<rparr>))"

subsection \<open>detectGender\<close>

text \<open>
  \<^verbatim>\<open>stderr.match(/RMS level dB: (-?\d+\.?\d+)/g)\<close>. At one position the pattern matches
  the literal text, an optional minus sign and the longest run of digits; then a dot
  followed by at least one digit extends the match by the dot and the digits after it,
  and otherwise the run itself is the match when it has two digits or more (the last
  digit is given back to the second \<^verbatim>\<open>\d+\<close>).
\<close>

definition digit :: "char \<Rightarrow> bool" where
  "digit c = (c \<in> set ''0123456789'')"

definition rms_literal :: string where
  "rms_literal = ''RMS level dB: ''"

definition match_here :: "string \<Rightarrow> string option" where
  "match_here s =
     (if take (length rms_literal) s \<noteq> rms_literal then None
      else
        let r = drop (length rms_literal) s;
            sign = (if take 1 r = ''-'' then ''-'' else []);
            r1 = drop (length sign) r;
            d = takeWhile digit r1;
            r2 = dropWhile digit r1;
            e = takeWhile digit (drop 1 r2)
        in if d = [] then None
           else if take 1 r2 = ''.'' \<and> e \<noteq> [] then Some (rms_literal @ sign @ d @ ''.'' @ e)
           else if 2 \<le> length d then Some (rms_literal @ sign @ d)
           else None)"

text \<open>
  The global search: \<open>match_all k s\<close> skips \<open>k\<close> characters (the rest of the match just
  found) and resumes. The result is empty where JavaScript returns \<^verbatim>\<open>null\<close>.
\<close>

fun match_all :: "nat \<Rightarrow> string \<Rightarrow> string list" where
  "match_all k [] = []"
| "match_all k (c # s) =
     (if 0 < k then match_all (k - 1) s
      else case match_here (c # s) of
             None \<Rightarrow> match_all 0 s
           | Some m \<Rightarrow> m # match_all (length m - 1) s)"

fun split_on :: "char \<Rightarrow> string \<Rightarrow> string list" where
  "split_on c [] = [[]]"
| "split_on c (x # xs) =
     (if x = c then [] # split_on c xs
      else case split_on c xs of
             y # ys \<Rightarrow> (x # y) # ys
           | [] \<Rightarrow> [[x]])"

definition digit_value :: "char \<Rightarrow> nat" where
  "digit_value c = length (takeWhile (\<lambda>d. d \<noteq> c) ''0123456789'')"

definition digits_value :: "string \<Rightarrow> nat" where
  "digits_value ds = foldl (\<lambda>n c. 10 * n + digit_value c) 0 ds"

text \<open>
  \<^verbatim>\<open>parseFloat\<close> on the texts the pattern lets through: an optional minus sign, digits
  and an optional fraction. The value is exact (the rounding to a double is not
  modelled).
\<close>

definition parseFloat :: "string \<Rightarrow> rat" where
  "parseFloat s =
     (let neg = (take 1 s = ''-'');
          r = (if neg then drop 1 s else s);
          ip = takeWhile digit r;
          r2 = dropWhile digit r;
          fp = (if take 1 r2 = ''.'' then takeWhile digit (drop 1 r2) else []);
          v = of_nat (digits_value ip) + of_nat (digits_value fp) / 10 ^ length fp
      in if neg then - v else v)"

definition catch :: "'a prog \<Rightarrow> (error \<Rightarrow> 'a prog) \<Rightarrow> 'a prog" where
  "catch m h w = (case m w of (Inl e, w') \<Rightarrow> h e w' | (Inr x, w') \<Rightarrow> (Inr x, w'))"

text \<open>
  Every text matched by the pattern holds the colon of the literal, so
  \<^verbatim>\<open>v.split(":")[1]\<close> is defined.
\<close>

definition astats_args :: "path \<Rightarrow> arg list" where
  "astats_args audioFile =
     [S ''-i'', S audioFile, S ''-af'', S ''astats=metadata=1:reset=1'', S ''-f'', S ''null'', S ''-'']"

definition detectGender :: "env \<Rightarrow> path \<Rightarrow> gender prog" where
  "detectGender env audioFile =
     catch
       (bindP (execFileAsync env (astats_args audioFile))
          (\<lambda>stderr.
             let rmsMatches = match_all 0 stderr in
             if rmsMatches \<noteq> [] then
               let rmsValues = map (\<lambda>v. parseFloat (trim (split_on CHR '':'' v ! 1))) rmsMatches;
                   avgRms = sum_list rmsValues / of_nat (length rmsValues)
               in ret (if avgRms < - 12.5 then Female else Male)
             else ret Male))
       (\<lambda>err. ret Female)"

subsection \<open>assignVoice, speak, concatAudio\<close>

definition assignVoice :: "gender \<Rightarrow> nat \<Rightarrow> string" where
  "assignVoice gender index =
     (if gender = Male then maleVoices ! (index mod length maleVoices)
      else femaleVoices ! (index mod length femaleVoices))"

text \<open>
  \<^verbatim>\<open>speak\<close> builds the table \<^verbatim>\<open>tonePrompt\<close> and then sends model, voice and input.
\<close>

definition speak :: "env \<Rightarrow> string \<Rightarrow> string \<Rightarrow> path \<Rightarrow> emotion \<Rightarrow> unit prog" where
  "speak env text voice output emotion w =
     (let tonePrompt =
            (\<lambda>e. case e of
                    Soft \<Rightarrow> ''Speak softly and gently.''
                  | Firm \<Rightarrow> ''Speak clearly with confidence.''
                  | Energetic \<Rightarrow> ''Speak with lively energy.''
                  | Neutral \<Rightarrow> ''Speak naturally.'');
          request = \<lparr>tts_model = ''gpt-4o-mini-tts'', tts_voice = voice, tts_input = text\<rparr>;
          w1 = w\<lparr>clock := clock w + 1, tts_requests := tts_requests w @ [request]\<rparr>
      in case tts env (clock w) request of
           None \<Rightarrow> (Inl OpenAIFailed, w1)
         | Some bytes \<Rightarrow> (Inr (), writeFileSync output bytes w1))"

fun join :: "string \<Rightarrow> string list \<Rightarrow> string" where
  "join sep [] = []"
| "join sep [x] = x"
| "join sep (x # y # ys) = x @ sep @ join sep (y # ys)"

definition concatAudio :: "env \<Rightarrow> path list \<Rightarrow> path \<Rightarrow> unit prog" where
  "concatAudio env inputs output =
     bindP (tempFile env ''.txt'') (\<lambda>list.
     bindP (lift (writeFileSync list
                    (join [CHR 0x0A] (map (\<lambda>f. ''file '' @ [CHR 0x27] @ f @ [CHR 0x27]) inputs)))) (\<lambda>_.
     bindP (execFileAsync env
              [S ''-f'', S ''concat'', S ''-safe'', S ''0'', S ''-i'', S list,
               S ''-c'', S ''copy'', S output]) (\<lambda>_.
     lift (safeUnlink list))))"

section \<open>services/dub.service.ts: dubVideo\<close>

text \<open>
  The variables of the loop that live across iterations, and the values one iteration
  computes (\<open>it_index\<close> is \<^verbatim>\<open>speakerIndex[speakerKey]\<close> as read by the post-increment,
  \<open>it_detected\<close> tells that the branch \<^verbatim>\<open>!speakerGender[speakerKey]\<close> was taken).
\<close>

record loop_state =
  timeline :: "path list"
  lastEnd :: rat
  speakerGender :: "string \<rightharpoonup> gender"
  speakerIndex :: "string \<rightharpoonup> nat"

record iteration =
  it_gap :: rat
  it_silence :: "path option"
  it_translated :: string
  it_speakerKey :: string
  it_detected :: bool
  it_gender :: gender
  it_index :: nat
  it_voice :: string
  it_emotion :: emotion
  it_spoken :: path

fun show_nat :: "nat \<Rightarrow> string" where
  "show_nat n =
     (if n < 10 then [''0123456789'' ! n]
      else show_nat (n div 10) @ [''0123456789'' ! (n mod 10)])"

declare show_nat.simps [simp del]

text \<open>\<^verbatim>\<open>seg.speaker || `segment_${i}`\<close>: a missing and an empty label are both falsy.\<close>

definition speakerKey_of :: "segment \<Rightarrow> nat \<Rightarrow> string" where
  "speakerKey_of seg i =
     (case seg_speaker seg of
        None \<Rightarrow> ''segment_'' @ show_nat i
      | Some s \<Rightarrow> if s \<noteq> [] then s else ''segment_'' @ show_nat i)"

fun includes_str :: "string \<Rightarrow> string \<Rightarrow> bool" where
  "includes_str [] needle = (needle = [])"
| "includes_str (c # cs) needle =
     (take (length needle) (c # cs) = needle \<or> includes_str cs needle)"

definition emotion_of :: "string \<Rightarrow> emotion" where
  "emotion_of text =
     (if includes_str text ''!'' then Energetic
      else if includes_str text ''?'' then Firm
      else Neutral)"

text \<open>
  The block \<^verbatim>\<open>// preserve silence\<close> of the loop: the clip pushed on the timeline, if
  any.
\<close>

definition preserve_silence :: "env \<Rightarrow> rat \<Rightarrow> path option prog" where
  "preserve_silence env gap =
     (if 0 < gap
      then bindP (tempFile env ''.wav'') (\<lambda>silence.
           bindP (createSilence env gap silence) (\<lambda>_.
           ret (Some silence)))
      else ret None)"

definition clip_args :: "path \<Rightarrow> segment \<Rightarrow> path \<Rightarrow> arg list" where
  "clip_args extractedAudio seg segmentAudio =
     [S ''-i'', S extractedAudio, S ''-ss'', Num (seg_start seg),
      S ''-to'', Num (seg_end seg), S ''-c'', S ''copy'', S segmentAudio]"

text \<open>
  The block \<^verbatim>\<open>// Determine gender\<close>, given \<^verbatim>\<open>speakerGender[speakerKey]\<close>: whether the
  branch of the detection was taken, and the gender.
\<close>

definition determine_gender ::
  "env \<Rightarrow> path \<Rightarrow> segment \<Rightarrow> gender option \<Rightarrow> (bool \<times> gender) prog"
where
  "determine_gender env extractedAudio seg cached =
     (case cached of
        None \<Rightarrow>
          bindP (tempFile env ''.wav'') (\<lambda>segmentAudio.
          bindP (execFileAsync env (clip_args extractedAudio seg segmentAudio)) (\<lambda>_.
          bindP (detectGender env segmentAudio) (\<lambda>gender.
          bindP (lift (safeUnlink segmentAudio)) (\<lambda>_.
          ret (True, gender)))))
      | Some gender \<Rightarrow> ret (False, gender))"

text \<open>
  One iteration of the \<^verbatim>\<open>for\<close> loop. The loop variables are local to \<^verbatim>\<open>dubVideo\<close>
  and are lost when a step throws, so their new values are assembled where the iteration
  ends.
\<close>

definition loop_body ::
  "env \<Rightarrow> string \<Rightarrow> path \<Rightarrow> nat \<Rightarrow> nat \<Rightarrow> segment \<Rightarrow> loop_state \<Rightarrow> (iteration \<times> loop_state) prog"
where
  "loop_body env jobId extractedAudio len i seg ls =
     (let gap = seg_start seg - lastEnd ls;
          speakerKey = speakerKey_of seg i;
          index = (case speakerIndex ls speakerKey of None \<Rightarrow> 0 | Some k \<Rightarrow> k)
      in
      bindP (preserve_silence env gap) (\<lambda>silence.
      bindP (translate env (seg_text seg)) (\<lambda>translated.
      bindP (determine_gender env extractedAudio seg (speakerGender ls speakerKey)) (\<lambda>(detected, gender).
      let voice = assignVoice gender index;
          emotion = emotion_of (seg_text seg)
      in
      bindP (tempFile env ''.mp3'') (\<lambda>spoken.
      bindP (speak env translated voice spoken emotion) (\<lambda>_.
      bindP (lift (progressMap_set jobId (15 + \<lfloor>(of_nat i / of_nat len :: rat) * 55\<rfloor>))) (\<lambda>_.
      ret (\<lparr>it_gap = gap, it_silence = silence, it_translated = translated,
             it_speakerKey = speakerKey, it_detected = detected, it_gender = gender,
             it_index = index, it_voice = voice, it_emotion = emotion, it_spoken = spoken\<rparr>,
           \<lparr>timeline = timeline ls @ (case silence of None \<Rightarrow> [] | Some s \<Rightarrow> [s]) @ [spoken],
             lastEnd = seg_end seg,
             speakerGender =
               (if detected then (speakerGender ls)(speakerKey \<mapsto> gender) else speakerGender ls),
             speakerIndex = (speakerIndex ls)(speakerKey \<mapsto> Suc index)\<rparr>))))))))"

fun for_loop ::
  "env \<Rightarrow> string \<Rightarrow> path \<Rightarrow> nat \<Rightarrow> nat \<Rightarrow> segment list \<Rightarrow> loop_state \<Rightarrow> (iteration list \<times> loop_state) prog"
where
  "for_loop env jobId extractedAudio len i [] ls = ret ([], ls)"
| "for_loop env jobId extractedAudio len i (seg # segs) ls =
     bindP (loop_body env jobId extractedAudio len i seg ls) (\<lambda>(it, ls1).
     bindP (for_loop env jobId extractedAudio len (Suc i) segs ls1) (\<lambda>(its, ls2).
     ret (it # its, ls2)))"

definition init_loop :: loop_state where
  "init_loop = \<lparr>timeline = [], lastEnd = 0, speakerGender = Map.empty, speakerIndex = Map.empty\<rparr>"

definition transcribe :: "env \<Rightarrow> path \<Rightarrow> segment list prog" where
  "transcribe env file w =
     (case whisper env (clock w) file of
        None \<Rightarrow> (Inl OpenAIFailed, w\<lparr>clock := clock w + 1\<rparr>)
      | Some segments \<Rightarrow> (Inr segments, w\<lparr>clock := clock w + 1\<rparr>))"

definition dubVideo :: "env \<Rightarrow> path \<Rightarrow> string \<Rightarrow> unit prog" where
  "dubVideo env inputPath jobId =
     bindP (tempFile env ''.wav'') (\<lambda>extractedAudio.
     bindP (tempFile env ''.wav'') (\<lambda>dubbedAudio.
     bindP (tempFile env ''.mp4'') (\<lambda>outputVideo.
     bindP (lift (progressMap_set jobId 5)) (\<lambda>_.
     bindP (extractAudio env inputPath extractedAudio) (\<lambda>_.
     bindP (lift (progressMap_set jobId 15)) (\<lambda>_.
     bindP (transcribe env extractedAudio) (\<lambda>segments.
     bindP (for_loop env jobId extractedAudio (length segments) 0 segments init_loop) (\<lambda>(its, ls).
     bindP (lift (progressMap_set jobId 75)) (\<lambda>_.
     bindP (concatAudio env (timeline ls) dubbedAudio) (\<lambda>_.
     bindP (lift (progressMap_set jobId 90)) (\<lambda>_.
     bindP (execFileAsync env
              [S ''-i'', S inputPath, S ''-i'', S dubbedAudio, S ''-filter_complex'',
               S ''[0:a]volume=0.15[a0];[1:a]volume=1.0[a1];[a0][a1]amix=inputs=2:dropout_transition=0[aout]'',
               S ''-map'', S ''0:v:0'', S ''-map'', S ''[aout]'', S ''-c:v'', S ''copy'',
               S ''-shortest'', S outputVideo]) (\<lambda>_.
     bindP (lift (progressMap_set jobId 100)) (\<lambda>_.
     bindP (lift (outputMap_set jobId outputVideo)) (\<lambda>_.
     bindP (lift (safeUnlink extractedAudio)) (\<lambda>_.
     bindP (lift (safeUnlink dubbedAudio)) (\<lambda>_.
     lift (\<lambda>w. foldl (\<lambda>w f. safeUnlink f w) w (timeline ls))))))))))))))))))"

section \<open>routes/dub.route.ts\<close>

text \<open>
  \<^verbatim>\<open>router.post("/")\<close> for the identifier \<open>jobId\<close> that \<^verbatim>\<open>uuid()\<close> returned: the
  handler of the rejected promise writes the sentinel.
\<close>

definition post_dub :: "env \<Rightarrow> path \<Rightarrow> string \<Rightarrow> world \<Rightarrow> world" where
  "post_dub env upload jobId w =
     (case dubVideo env upload jobId (progressMap_set jobId 0 w) of
        (Inl err, w') \<Rightarrow> progressMap_set jobId (- 1) w'
      | (Inr _, w') \<Rightarrow> w')"

text \<open>
  One firing of the timer of \<^verbatim>\<open>router.get("/progress/:id")\<close>: the value written to the
  stream, and whether the stream was ended.
\<close>

definition progress_tick :: "string \<Rightarrow> world \<Rightarrow> int \<times> bool" where
  "progress_tick ident w =
     (let progress = (case progressMap w ident of None \<Rightarrow> 0 | Some v \<Rightarrow> v)
      in (progress, 100 \<le> progress \<or> progress < 0))"

text \<open>
  The stream over the worlds the timer finds at its successive firings: the values
  written, and whether the stream has ended itself.
\<close>

fun progress_stream :: "string \<Rightarrow> world list \<Rightarrow> int list \<times> bool" where
  "progress_stream ident [] = ([], False)"
| "progress_stream ident (w # ws) =
     (case progress_tick ident w of
        (progress, True) \<Rightarrow> ([progress], True)
      | (progress, False) \<Rightarrow>
          (case progress_stream ident ws of (ps, ended) \<Rightarrow> (progress # ps, ended)))"



section \<open>Observations\<close>

text \<open>
  What the statements below read off a run: the kind of an ffmpeg command in the log,
  the duration in seconds a silence command asks for, the timeline entries and the
  silence command of one iteration, the gaps of a segment list for a cursor, the value
  \<^verbatim>\<open>speakerIndex[key]\<close> with a missing entry read as zero, and the pool of a gender.
\<close>

definition is_silence :: "arg list \<Rightarrow> bool" where
  "is_silence args = (take 2 args = [S ''-f'', S ''lavfi''])"

definition is_astats :: "arg list \<Rightarrow> bool" where
  "is_astats args = (drop 2 args = drop 2 (astats_args []))"





definition index_of :: "(string \<rightharpoonup> nat) \<Rightarrow> string \<Rightarrow> nat" where
  "index_of m k = (case m k of None \<Rightarrow> 0 | Some n \<Rightarrow> n)"


subsection \<open>An example job\<close>

text \<open>
  Three segments, two of them of speaker \<open>A\<close> and one without a label; the first
  starts an eighth of a second into the audio, the third follows the second without a
  gap. Every external call succeeds.
\<close>

definition segs0 :: "segment list" where
  "segs0 =
     [\<lparr>seg_start = 1 / 8, seg_end = 2, seg_text = ''ni hao!'', seg_speaker = Some ''A''\<rparr>,
      \<lparr>seg_start = 3, seg_end = 5, seg_text = ''shi ma?'', seg_speaker = None\<rparr>,
      \<lparr>seg_start = 5, seg_end = 6, seg_text = ''hao'', seg_speaker = Some ''A''\<rparr>]"

definition env0 :: env where
  "env0 =
     \<lparr>rnd = show_nat,
      ffmpeg = (\<lambda>c args. if is_astats args
                  then Exited ''RMS level dB: -20.5 RMS level dB: -30.25''
                  else Exited []),
      whisper = (\<lambda>c p. Some segs0),
      chat = (\<lambda>c t. Some ('' EN:'' @ t @ '' '')),
      tts = (\<lambda>c r. Some (tts_input r))\<rparr>"

definition w0 :: world where
  "w0 = \<lparr>clock = 0, files = [''tmp/upload'' \<mapsto> Written ''video''], progressMap = Map.empty,
          outputMap = Map.empty, progress_writes = [], ffmpeg_calls = [], tts_requests = []\<rparr>"

text \<open>The same job with a transcription service that rejects the call.\<close>

definition env_fail :: env where
  "env_fail = env0\<lparr>whisper := (\<lambda>c p. None)\<rparr>"

text \<open>An environment whose ffmpeg always ends the same way.\<close>

definition env_ffmpeg :: "exec_result \<Rightarrow> env" where
  "env_ffmpeg r = env0\<lparr>ffmpeg := (\<lambda>c args. r)\<rparr>"


definition w_done :: world where
  "w_done = w0\<lparr>outputMap := [''job'' \<mapsto> ''/tmp/2.mp4''], progressMap := [''job'' \<mapsto> 100],
              files := [''/tmp/2.mp4'' \<mapsto> Written ''dubbed video'']\<rparr>"

subsection \<open>Reliable collaborators\<close>

text \<open>
  An environment is reliable when no external call is rejected; a program succeeds when
  it returns a value from every world.
\<close>

definition reliable :: "env \<Rightarrow> bool" where
  "reliable env =
     ((\<forall>c args. ffmpeg env c args \<noteq> Throws) \<and> (\<forall>c p. whisper env c p \<noteq> None) \<and>
      (\<forall>c t. chat env c t \<noteq> None) \<and> (\<forall>c r. tts env c r \<noteq> None))"

definition succeeds :: "'a prog \<Rightarrow> bool" where
  "succeeds m = (\<forall>w. \<exists>x w'. m w = (Inr x, w'))"

section \<open>Lemmas\<close>

subsection \<open>Successful runs, step by step\<close>


lemma bindP_InrE:
  assumes "bindP m k w = (Inr y, w')"
  obtains x w1 where "m w = (Inr x, w1)" and "k x w1 = (Inr y, w')"
  using assms by (auto simp: bindP_def split: prod.splits sum.splits)

lemma loop_body_InrE:
  assumes "loop_body env jobId ex len i seg ls w = (Inr (it, ls'), w')"
  obtains silence w1 translated w2 detected gender w3 spoken w4 w5 where
    "preserve_silence env (seg_start seg - lastEnd ls) w = (Inr silence, w1)"
    "translate env (seg_text seg) w1 = (Inr translated, w2)"
    "determine_gender env ex seg (speakerGender ls (speakerKey_of seg i)) w2 = (Inr (detected, gender), w3)"
    "tempFile env ''.mp3'' w3 = (Inr spoken, w4)"
    "speak env translated
       (assignVoice gender (case speakerIndex ls (speakerKey_of seg i) of None \<Rightarrow> 0 | Some k \<Rightarrow> k))
       spoken (emotion_of (seg_text seg)) w4 = (Inr (), w5)"
    "w' = progressMap_set jobId (15 + \<lfloor>(of_nat i / of_nat len :: rat) * 55\<rfloor>) w5"
    "it = \<lparr>it_gap = seg_start seg - lastEnd ls, it_silence = silence, it_translated = translated,
             it_speakerKey = speakerKey_of seg i, it_detected = detected, it_gender = gender,
             it_index = (case speakerIndex ls (speakerKey_of seg i) of None \<Rightarrow> 0 | Some k \<Rightarrow> k),
             it_voice = assignVoice gender (case speakerIndex ls (speakerKey_of seg i) of None \<Rightarrow> 0 | Some k \<Rightarrow> k),
             it_emotion = emotion_of (seg_text seg), it_spoken = spoken\<rparr>"
    "ls' = \<lparr>timeline = timeline ls @ (case silence of None \<Rightarrow> [] | Some s \<Rightarrow> [s]) @ [spoken],
             lastEnd = seg_end seg,
             speakerGender =
               (if detected then (speakerGender ls)(speakerKey_of seg i \<mapsto> gender) else speakerGender ls),
             speakerIndex = (speakerIndex ls)(speakerKey_of seg i \<mapsto>
                Suc (case speakerIndex ls (speakerKey_of seg i) of None \<Rightarrow> 0 | Some k \<Rightarrow> k))\<rparr>"
proof -
  from assms obtain silence w1 translated w2 dg w3 spoken w4 u w5 u' w6 where
    a: "preserve_silence env (seg_start seg - lastEnd ls) w = (Inr silence, w1)"
      "translate env (seg_text seg) w1 = (Inr translated, w2)"
      "determine_gender env ex seg (speakerGender ls (speakerKey_of seg i)) w2 = (Inr dg, w3)"
      "tempFile env ''.mp3'' w3 = (Inr spoken, w4)"
      "speak env translated
         (assignVoice (snd dg) (case speakerIndex ls (speakerKey_of seg i) of None \<Rightarrow> 0 | Some k \<Rightarrow> k))
         spoken (emotion_of (seg_text seg)) w4 = (Inr u, w5)"
      "lift (progressMap_set jobId (15 + \<lfloor>(of_nat i / of_nat len :: rat) * 55\<rfloor>)) w5 = (Inr u', w6)"
    and b: "ret (\<lparr>it_gap = seg_start seg - lastEnd ls, it_silence = silence, it_translated = translated,
             it_speakerKey = speakerKey_of seg i, it_detected = fst dg, it_gender = snd dg,
             it_index = (case speakerIndex ls (speakerKey_of seg i) of None \<Rightarrow> 0 | Some k \<Rightarrow> k),
             it_voice = assignVoice (snd dg) (case speakerIndex ls (speakerKey_of seg i) of None \<Rightarrow> 0 | Some k \<Rightarrow> k),
             it_emotion = emotion_of (seg_text seg), it_spoken = spoken\<rparr>,
           \<lparr>timeline = timeline ls @ (case silence of None \<Rightarrow> [] | Some s \<Rightarrow> [s]) @ [spoken],
             lastEnd = seg_end seg,
             speakerGender =
               (if fst dg then (speakerGender ls)(speakerKey_of seg i \<mapsto> snd dg) else speakerGender ls),
             speakerIndex = (speakerIndex ls)(speakerKey_of seg i \<mapsto>
                Suc (case speakerIndex ls (speakerKey_of seg i) of None \<Rightarrow> 0 | Some k \<Rightarrow> k))\<rparr>) w6
           = (Inr (it, ls'), w')"
    unfolding loop_body_def Let_def split_beta
    by (elim bindP_InrE) blast
  show ?thesis
    using a b that[of silence w1 translated w2 "fst dg" "snd dg" w3 spoken w4 w5]
    by (simp add: ret_def lift_def)
qed


lemma for_loop_Cons_InrE:
  assumes "for_loop env jobId ex len i (seg # segs) ls w = (Inr (its, ls'), w')"
  obtains it ls1 w1 its1 where
    "loop_body env jobId ex len i seg ls w = (Inr (it, ls1), w1)"
    "for_loop env jobId ex len (Suc i) segs ls1 w1 = (Inr (its1, ls'), w')"
    "its = it # its1"
  using assms by (auto elim!: bindP_InrE simp: ret_def split: prod.splits)

lemma tempFile_eq:
  "tempFile env ext w = (r, w1) \<Longrightarrow>
   r = Inr (tmpdir @ ''/'' @ rnd env (clock w) @ ext) \<and> w1 = w\<lparr>clock := clock w + 1\<rparr>"
  by (auto simp: tempFile_def)

lemma execFileAsync_calls:
  "execFileAsync env args w = (r, w1) \<Longrightarrow> ffmpeg_calls w1 = ffmpeg_calls w @ [args]"
  by (auto simp: execFileAsync_def Let_def split: exec_result.splits option.splits)

lemma execFileAsync_files:
  "execFileAsync env args w = (r, w1) \<Longrightarrow> dom (files w1) \<subseteq> dom (files w) \<union> set_option (output_of args)"
  by (auto simp: execFileAsync_def Let_def split: exec_result.splits option.splits if_splits)


lemma output_of_clip_args: "set_option (output_of (clip_args ex seg p)) \<subseteq> {p}"
  by (simp add: output_of_def clip_args_def)

lemma output_of_astats_args: "output_of (astats_args p) = None"
  by (simp add: output_of_def astats_args_def)



lemma detectGender_eq:
  assumes "detectGender env f w = (r, w1)"
  shows "\<exists>g. r = Inr g"
    and "ffmpeg_calls w1 = ffmpeg_calls w @ [astats_args f]"
    and "dom (files w1) \<subseteq> dom (files w)"
proof -
  obtain r0 w0 where e: "execFileAsync env (astats_args f) w = (r0, w0)"
    by (cases "execFileAsync env (astats_args f) w")
  have w: "w1 = w0"
    using assms e
    by (auto simp: detectGender_def catch_def bindP_def ret_def Let_def split: sum.splits if_splits)
  show "\<exists>g. r = Inr g"
    using assms e
    by (auto simp: detectGender_def catch_def bindP_def ret_def Let_def split: sum.splits if_splits)
  show "ffmpeg_calls w1 = ffmpeg_calls w @ [astats_args f]"
    using execFileAsync_calls[OF e] w by simp
  show "dom (files w1) \<subseteq> dom (files w)"
    using execFileAsync_files[OF e] w by (simp add: output_of_astats_args)
qed

lemma safeUnlink_fields:
  "ffmpeg_calls (safeUnlink p w) = ffmpeg_calls w"
  "progress_writes (safeUnlink p w) = progress_writes w"
  "clock (safeUnlink p w) = clock w"
  "outputMap (safeUnlink p w) = outputMap w"
  "progressMap (safeUnlink p w) = progressMap w"
  by (simp_all add: safeUnlink_def)

lemma safeUnlink_dom: "p \<noteq> [] \<Longrightarrow> dom (files (safeUnlink p w)) = dom (files w) - {p}"
  by (auto simp: safeUnlink_def)

lemma safeUnlink_dom_subset: "dom (files (safeUnlink p w)) \<subseteq> dom (files w)"
  by (auto simp: safeUnlink_def)

lemma tempFile_nonempty: "tempFile env ext w = (Inr p, w1) \<Longrightarrow> p \<noteq> []"
  by (auto simp: tempFile_def tmpdir_def)

lemma is_silence_simps [simp]:
  "is_silence (silence_args g p)" "\<not> is_silence (clip_args ex seg p)" "\<not> is_silence (astats_args p)"
  by (simp_all add: is_silence_def silence_args_def clip_args_def astats_args_def)

lemma is_astats_simps [simp]:
  "\<not> is_astats (silence_args g p)" "\<not> is_astats (clip_args ex seg p)" "is_astats (astats_args p)"
  by (simp_all add: is_astats_def silence_args_def clip_args_def astats_args_def)

lemma determine_gender_Inr:
  assumes "determine_gender env ex seg cached w = (Inr (d, g), w1)"
  shows "d = (cached = None) \<and> (cached \<noteq> None \<longrightarrow> cached = Some g) \<and>
         filter is_silence (ffmpeg_calls w1) = filter is_silence (ffmpeg_calls w) \<and>
         length (filter is_astats (ffmpeg_calls w1)) =
           length (filter is_astats (ffmpeg_calls w)) + (if d then 1 else 0) \<and>
         dom (files w1) \<subseteq> dom (files w)"
proof (cases cached)
  case None
  from assms None obtain p wa u wb g' wc where
    t: "tempFile env ''.wav'' w = (Inr p, wa)"
    and c: "execFileAsync env (clip_args ex seg p) wa = (Inr u, wb)"
    and dt: "detectGender env p wb = (Inr g', wc)"
    and fin: "w1 = safeUnlink p wc" "d = True" "g = g'"
    by (auto simp: determine_gender_def ret_def lift_def elim!: bindP_InrE)
  have wa: "wa = w\<lparr>clock := clock w + 1\<rparr>" using tempFile_eq[OF t] by simp
  have calls: "ffmpeg_calls w1 = ffmpeg_calls w @ [clip_args ex seg p, astats_args p]"
    using execFileAsync_calls[OF c] detectGender_eq(2)[OF dt] fin wa
    by (simp add: safeUnlink_fields)
  have pne: "p \<noteq> []" using tempFile_nonempty[OF t] .
  have fa: "files wa = files w" using wa by simp
  have "dom (files wc) \<subseteq> dom (files w) \<union> {p}"
    using execFileAsync_files[OF c] detectGender_eq(3)[OF dt] output_of_clip_args[of ex seg p]
    unfolding fa by blast
  then have files: "dom (files w1) \<subseteq> dom (files w)"
    unfolding fin safeUnlink_dom[OF pne] by blast
  show ?thesis
    using None fin calls files by simp
next
  case (Some g0)
  with assms have "w1 = w" "d = False" "g = g0"
    by (auto simp: determine_gender_def ret_def)
  with Some show ?thesis by simp
qed






lemma loop_body_speakers:
  assumes "loop_body env jobId ex len i seg ls w = (Inr (it, ls'), w')"
  shows "it_speakerKey it = speakerKey_of seg i \<and>
         it_detected it = (speakerGender ls (it_speakerKey it) = None) \<and>
         (\<forall>g. speakerGender ls (it_speakerKey it) = Some g \<longrightarrow> it_gender it = g) \<and>
         speakerGender ls' = (speakerGender ls)(it_speakerKey it \<mapsto> it_gender it) \<and>
         it_index it = index_of (speakerIndex ls) (it_speakerKey it) \<and>
         speakerIndex ls' = (speakerIndex ls)(it_speakerKey it \<mapsto> Suc (it_index it)) \<and>
         it_voice it = assignVoice (it_gender it) (it_index it) \<and>
         it_emotion it = emotion_of (seg_text seg)"
proof -
  from assms obtain detected gender w2 w3 where
    dg: "determine_gender env ex seg (speakerGender ls (speakerKey_of seg i)) w2 = (Inr (detected, gender), w3)"
    and it: "it_speakerKey it = speakerKey_of seg i" "it_detected it = detected" "it_gender it = gender"
       "it_index it = (case speakerIndex ls (speakerKey_of seg i) of None \<Rightarrow> 0 | Some k \<Rightarrow> k)"
       "it_voice it = assignVoice gender (case speakerIndex ls (speakerKey_of seg i) of None \<Rightarrow> 0 | Some k \<Rightarrow> k)"
       "it_emotion it = emotion_of (seg_text seg)"
    and ls': "speakerGender ls' =
               (if detected then (speakerGender ls)(speakerKey_of seg i \<mapsto> gender) else speakerGender ls)"
       "speakerIndex ls' = (speakerIndex ls)(speakerKey_of seg i \<mapsto>
                Suc (case speakerIndex ls (speakerKey_of seg i) of None \<Rightarrow> 0 | Some k \<Rightarrow> k))"
    by (elim loop_body_InrE) simp
  have d: "detected = (speakerGender ls (speakerKey_of seg i) = None)"
    and c: "speakerGender ls (speakerKey_of seg i) \<noteq> None \<longrightarrow>
            speakerGender ls (speakerKey_of seg i) = Some gender"
    using determine_gender_Inr[OF dg] by simp_all
  have g: "speakerGender ls' = (speakerGender ls)(speakerKey_of seg i \<mapsto> gender)"
  proof (cases detected)
    case True
    then show ?thesis using ls' by simp
  next
    case False
    then have "speakerGender ls (speakerKey_of seg i) = Some gender" using d c by simp
    then show ?thesis using ls' False by (simp add: map_upd_triv)
  qed
  show ?thesis
    using it d c g ls' by (auto simp: index_of_def)
qed



lemma for_loop_speakers:
  assumes "for_loop env jobId ex len i segs ls w = (Inr (its, ls'), w')"
  shows "map it_speakerKey its = map2 speakerKey_of segs [i..<i + length segs] \<and>
         map it_emotion its = map (\<lambda>seg. emotion_of (seg_text seg)) segs \<and>
         (\<forall>it\<in>set its. it_voice it = assignVoice (it_gender it) (it_index it))"
  using assms
proof (induction segs arbitrary: i ls w its)
  case Nil
  then show ?case by (simp add: ret_def)
next
  case (Cons seg segs)
  from Cons.prems obtain it ls1 w1 its1 where
    body: "loop_body env jobId ex len i seg ls w = (Inr (it, ls1), w1)"
    and rest: "for_loop env jobId ex len (Suc i) segs ls1 w1 = (Inr (its1, ls'), w')"
    and its: "its = it # its1"
    by (rule for_loop_Cons_InrE)
  note b = loop_body_speakers[OF body]
  note ih = Cons.IH[OF rest]
  have "[i..<i + length (seg # segs)] = i # [Suc i..<Suc i + length segs]"
    by (simp add: upt_rec)
  then show ?case
    using b ih its by simp
qed




lemma succeeds_bindP: "succeeds m \<Longrightarrow> (\<And>x. succeeds (k x)) \<Longrightarrow> succeeds (bindP m k)"
  unfolding succeeds_def bindP_def
  by (metis (mono_tags, lifting) case_prod_conv sum.case(2))

lemma succeeds_ret: "succeeds (ret x)"
  by (simp add: succeeds_def ret_def)

lemma succeeds_lift: "succeeds (lift f)"
  by (simp add: succeeds_def lift_def)

lemma succeeds_tempFile: "succeeds (tempFile env ext)"
  by (simp add: succeeds_def tempFile_def)

lemma succeeds_execFileAsync: "reliable env \<Longrightarrow> succeeds (execFileAsync env args)"
  by (auto simp: succeeds_def reliable_def execFileAsync_def Let_def split: exec_result.splits)

lemma succeeds_translate: "reliable env \<Longrightarrow> succeeds (translate env text)"
  by (auto simp: succeeds_def reliable_def translate_def split: option.splits)

lemma succeeds_transcribe: "reliable env \<Longrightarrow> succeeds (transcribe env file)"
  by (auto simp: succeeds_def reliable_def transcribe_def split: option.splits)

lemma succeeds_speak: "reliable env \<Longrightarrow> succeeds (speak env text voice out emo)"
  by (auto simp: succeeds_def reliable_def speak_def Let_def split: option.splits)

lemma succeeds_detectGender: "succeeds (detectGender env f)"
  unfolding succeeds_def
proof
  fix w
  obtain r w1 where e: "detectGender env f w = (r, w1)" by (cases "detectGender env f w")
  from detectGender_eq(1)[OF e] e show "\<exists>x w'. detectGender env f w = (Inr x, w')" by auto
qed

lemma succeeds_createSilence: "reliable env \<Longrightarrow> succeeds (createSilence env s out)"
  by (simp add: createSilence_def succeeds_bindP succeeds_ret succeeds_execFileAsync)

lemma succeeds_preserve_silence: "reliable env \<Longrightarrow> succeeds (preserve_silence env gap)"
  by (simp add: preserve_silence_def succeeds_bindP succeeds_ret succeeds_tempFile succeeds_createSilence)

lemma succeeds_determine_gender: "reliable env \<Longrightarrow> succeeds (determine_gender env ex seg cached)"
  by (cases cached)
     (simp_all add: determine_gender_def succeeds_bindP succeeds_ret succeeds_tempFile
        succeeds_execFileAsync succeeds_detectGender succeeds_lift)

lemma succeeds_loop_body: "reliable env \<Longrightarrow> succeeds (loop_body env jobId ex len i seg ls)"
  unfolding loop_body_def Let_def split_beta
  by (intro succeeds_bindP succeeds_ret succeeds_tempFile succeeds_lift succeeds_speak
        succeeds_translate succeeds_preserve_silence succeeds_determine_gender)

lemma succeeds_for_loop: "reliable env \<Longrightarrow> succeeds (for_loop env jobId ex len i segs ls)"
proof (induction segs arbitrary: i ls)
  case Nil
  then show ?case by (simp add: succeeds_ret)
next
  case (Cons seg segs)
  show ?case
    unfolding for_loop.simps split_beta
    by (intro succeeds_bindP succeeds_ret succeeds_loop_body Cons.IH Cons.prems)
qed

lemma succeeds_concatAudio: "reliable env \<Longrightarrow> succeeds (concatAudio env inputs out)"
  unfolding concatAudio_def
  by (intro succeeds_bindP succeeds_tempFile succeeds_lift succeeds_execFileAsync)

lemma succeeds_dubVideo: "reliable env \<Longrightarrow> succeeds (dubVideo env inputPath jobId)"
  unfolding dubVideo_def extractAudio_def split_beta
  by (intro succeeds_bindP succeeds_tempFile succeeds_lift succeeds_execFileAsync succeeds_ret
        succeeds_transcribe succeeds_for_loop succeeds_concatAudio)

lemma reliable_env0: "reliable env0"
  by (simp add: reliable_def env0_def)

subsection \<open>Runs of the example job\<close>

lemma floor_numeral_div_rat:
  "\<lfloor>numeral a / numeral b :: rat\<rfloor> = numeral a div numeral b"
  by (metis floor_divide_of_int_eq of_int_numeral)

lemma show_nat_small: "n < 10 \<Longrightarrow> show_nat n = [''0123456789'' ! n]"
  by (simp add: show_nat.simps)

lemma show_nat_large:
  "10 \<le> n \<Longrightarrow> show_nat n = show_nat (n div 10) @ [''0123456789'' ! (n mod 10)]"
  by (subst show_nat.simps) simp

lemmas eval_simps = env0_def env_fail_def env_ffmpeg_def segs0_def w0_def init_loop_def
    loop_body_def[THEN fun_cong] preserve_silence_def[THEN fun_cong] determine_gender_def[THEN fun_cong]
    for_loop.simps[THEN fun_cong] createSilence_def[THEN fun_cong] detectGender_def[THEN fun_cong]
    extractAudio_def[THEN fun_cong] concatAudio_def[THEN fun_cong] dubVideo_def[THEN fun_cong]
    bindP_def ret_def lift_def tempFile_def post_dub_def transcribe_def outputMap_set_def
    execFileAsync_def translate_def catch_def speak_def safeUnlink_def writeFileSync_def progressMap_set_def
    speakerKey_of_def emotion_of_def assignVoice_def maleVoices_def femaleVoices_def output_of_def toFixed2_def trim_def whitespace_def
    tmpdir_def show_nat_small show_nat_large match_here_def rms_literal_def digit_def parseFloat_def digits_value_def digit_value_def Let_def
    silence_args_def clip_args_def astats_args_def floor_numeral_div_rat is_astats_def is_silence_def



lemma for_loop_run_env0:
  "\<exists>its ls' w'. for_loop env0 jobId ex len i segs ls w = (Inr (its, ls'), w')"
  using succeeds_for_loop[OF reliable_env0, of jobId ex len i segs ls]
  unfolding succeeds_def by (metis surj_pair)

subsection \<open>Emotion, durations, pools and the count of detections\<close>

lemma includes_str_single: "includes_str s [c] = (c \<in> set s)"
  by (induction s) auto

lemma emotion_of_eq:
  "emotion_of t = (if CHR ''!'' \<in> set t then Energetic else if CHR ''?'' \<in> set t then Firm else Neutral)"
  by (simp add: emotion_of_def includes_str_single)






section \<open>Claims\<close>

subsection \<open>C1: the reconstructed timeline\<close>




subsection \<open>C2: the rotation of voices\<close>



subsection \<open>C3: the fallback of detectGender\<close>

text \<open>
  \<^bold>\<open>C3\<close>. \<^verbatim>\<open>detectGender\<close> never throws: from every world, in every environment, it
  returns a gender. Its two fallbacks differ: where the ffmpeg call is rejected the
  handler returns \<^verbatim>\<open>"female"\<close> (while it logs "defaulting to male"), and where ffmpeg
  exits with an output that holds no RMS level the result is \<^verbatim>\<open>"male"\<close>.
\<close>

theorem detectGender_fallbacks_differ:
  "(\<forall>env audioFile w. \<exists>g w'. detectGender env audioFile w = (Inr g, w')) \<and>
   fst (detectGender (env_ffmpeg Throws) ''/tmp/clip.wav'' w0) = Inr Female \<and>
   fst (detectGender (env_ffmpeg (Exited ''size=N/A time=00:00:02.00'')) ''/tmp/clip.wav'' w0) = Inr Male"
proof -
  have "\<exists>g w'. detectGender env audioFile w = (Inr g, w')" for env audioFile w
    using succeeds_detectGender[of env audioFile] unfolding succeeds_def by blast
  moreover have "fst (detectGender (env_ffmpeg Throws) ''/tmp/clip.wav'' w0) = Inr Female"
    by (simp add: eval_simps)
  moreover have
    "fst (detectGender (env_ffmpeg (Exited ''size=N/A time=00:00:02.00'')) ''/tmp/clip.wav'' w0) = Inr Male"
    by (simp add: eval_simps)
  ultimately show ?thesis by blast
qed

subsection \<open>C6: the emotion of a segment\<close>

text \<open>
  \<^bold>\<open>C6\<close>. In a run of the loop that returns, the emotion handed to \<^verbatim>\<open>speak\<close> for each
  segment is computed from the text of the segment as transcribed, not from its
  translation: energetic if it holds an exclamation mark, otherwise firm if it holds a
  question mark, otherwise neutral.
\<close>

theorem emotion_from_original_text:
  assumes "for_loop env jobId ex len i segs ls w = (Inr (its, ls'), w')"
  shows "map it_emotion its =
         map (\<lambda>seg. if CHR ''!'' \<in> set (seg_text seg) then Energetic
                     else if CHR ''?'' \<in> set (seg_text seg) then Firm
                     else Neutral) segs"
  using for_loop_speakers[OF assms] by (simp add: emotion_of_eq)

text \<open>
  The example job: \<open>ni hao!\<close> is energetic, \<open>shi ma?\<close> is firm, \<open>hao\<close> is neutral.
\<close>

theorem emotion_from_original_text_witness:
  "\<exists>its ls' w'. for_loop env0 ''job'' ''/tmp/audio.wav'' 3 0 segs0 init_loop w0 = (Inr (its, ls'), w') \<and>
     map it_emotion its = [Energetic, Firm, Neutral]"
proof -
  obtain its ls' w' where
    run: "for_loop env0 ''job'' ''/tmp/audio.wav'' 3 0 segs0 init_loop w0 = (Inr (its, ls'), w')"
    using for_loop_run_env0 by blast
  have "map it_emotion its = [Energetic, Firm, Neutral]"
    using emotion_from_original_text[OF run] by (simp add: segs0_def)
  with run have "for_loop env0 ''job'' ''/tmp/audio.wav'' 3 0 segs0 init_loop w0 = (Inr (its, ls'), w') \<and>
     map it_emotion its = [Energetic, Firm, Neutral]" by simp
  then show ?thesis by - (rule exI)+
qed

subsection \<open>C7: one detection per speaker key\<close>



subsection \<open>C8: download at most once\<close>



subsection \<open>C9: the progress stream of an unknown job\<close>

text \<open>
  \<^bold>\<open>C9\<close>. While the progress map has no entry for an identifier, every firing of the
  timer writes 0, which is what it writes for a job just created, and does not end the
  stream: after any number of firings the stream is still open.
\<close>

theorem progress_stream_unknown_id:
  assumes "\<forall>w\<in>set ws. progressMap w ident = None"
  shows "progress_stream ident ws = (replicate (length ws) 0, False) \<and>
         (\<forall>w\<in>set ws. progress_tick ident w = (0, False) \<and>
            progress_tick ident w = progress_tick ident (progressMap_set ident 0 w))"
  using assms by (induction ws) (auto simp: progress_tick_def progressMap_set_def)

text \<open>
  Three firings for an identifier that no world knows.
\<close>

theorem progress_stream_unknown_id_witness:
  "progress_stream ''nobody'' [w0, w_done, w0] = ([0, 0, 0], False) \<and>
   progress_tick ''nobody'' w_done = (0, False)"
proof -
  have "\<forall>w\<in>set [w0, w_done, w0]. progressMap w ''nobody'' = None"
    by (simp add: w0_def w_done_def)
  from progress_stream_unknown_id[OF this] show ?thesis
    by (simp add: numeral_3_eq_3 del: progress_stream.simps)
qed

subsection \<open>C10: speak does not depend on the emotion\<close>

text \<open>
  \<^bold>\<open>C10\<close>. Two calls of \<^verbatim>\<open>speak\<close> that differ only in the emotion return the same
  result and leave the same world: the same request was sent to the speech engine and
  the same bytes were written to the output file. The request holds the model, the
  voice and the text only.
\<close>

theorem speak_ignores_emotion:
  "speak env text voice output e1 w = speak env text voice output e2 w \<and>
   tts_requests (snd (speak env text voice output e1 w)) =
     tts_requests w @ [\<lparr>tts_model = ''gpt-4o-mini-tts'', tts_voice = voice, tts_input = text\<rparr>]"
  by (simp add: speak_def writeFileSync_def Let_def split: option.splits)

end
